theory Spec2Isabelle
  imports Complex_Main "HOL-Library.Sublist"
begin

section \<open>JavaScript numbers\<close>

text \<open>
  A JavaScript number is an IEEE 754 binary64 value: a finite value, one of the two
  infinities, or NaN. A finite value is carried as the real number it denotes. The two
  zeros are identified: in this program they can only be told apart by the sign of the
  infinity that a division by zero produces, and no statement below depends on that sign
  for a negative zero.
\<close>

datatype jsnum = Fin real | PInf | NInf | NaN

text \<open>
  Rounding to binary64, round-to-nearest, ties to even. \<open>expo x\<close> is the binary exponent
  of a positive \<open>x\<close>, clamped below at the exponent of the subnormal range (where the
  spacing of the representable values no longer shrinks) and above where every value
  overflows. The spacing at exponent \<open>e\<close> is \<open>2 ^ (e - 52)\<close>.
\<close>

definition pow2 :: "int \<Rightarrow> real" where
  "pow2 k = (if 0 \<le> k then 2 ^ nat k else 1 / 2 ^ nat (- k))"

function expo_up :: "real \<Rightarrow> int \<Rightarrow> int" where
  "expo_up x e = (if 2 \<le> x \<and> e < 1024 then expo_up (x / 2) (e + 1) else e)"
  by pat_completeness auto
termination
  by (relation "measure (\<lambda>(x, e). nat (1024 - e))") auto

function expo_down :: "real \<Rightarrow> int \<Rightarrow> int" where
  "expo_down x e = (if x < 1 \<and> - 1022 < e then expo_down (x * 2) (e - 1) else e)"
  by pat_completeness auto
termination
  by (relation "measure (\<lambda>(x, e). nat (e + 1022))") auto

declare expo_up.simps [simp del] expo_down.simps [simp del]

definition expo :: "real \<Rightarrow> int" where
  "expo x = (if 1 \<le> x then expo_up x 0 else expo_down x 0)"

definition rne :: "real \<Rightarrow> int" where
  "rne x = (let f = \<lfloor>x\<rfloor>; d = x - of_int f
            in if d < 1 / 2 then f
               else if 1 / 2 < d then f + 1
               else if even f then f else f + 1)"

definition rnd :: "real \<Rightarrow> jsnum" where
  "rnd x = (if x = 0 then Fin 0
            else let e = expo \<bar>x\<bar>;
                     q = pow2 (e - 52);
                     r = of_int (rne (x / q)) * q
                 in if e < 1023 then Fin r
                    else if 2 ^ 1024 \<le> \<bar>r\<bar> then (if 0 < x then PInf else NInf)
                    else Fin r)"

text \<open>A decimal literal of the source denotes the binary64 value nearest to it.\<close>

definition lit :: "real \<Rightarrow> jsnum" where
  "lit x = rnd x"

text \<open>The arithmetic operators \<open>+\<close>, unary \<open>-\<close>, \<open>-\<close>, \<open>*\<close>, \<open>/\<close> on numbers.\<close>

fun js_add :: "jsnum \<Rightarrow> jsnum \<Rightarrow> jsnum" where
  "js_add NaN _ = NaN"
| "js_add _ NaN = NaN"
| "js_add PInf NInf = NaN"
| "js_add NInf PInf = NaN"
| "js_add PInf _ = PInf"
| "js_add _ PInf = PInf"
| "js_add NInf _ = NInf"
| "js_add _ NInf = NInf"
| "js_add (Fin a) (Fin b) = rnd (a + b)"

fun js_neg :: "jsnum \<Rightarrow> jsnum" where
  "js_neg (Fin a) = Fin (- a)"
| "js_neg PInf = NInf"
| "js_neg NInf = PInf"
| "js_neg NaN = NaN"

definition js_sub :: "jsnum \<Rightarrow> jsnum \<Rightarrow> jsnum" where
  "js_sub a b = js_add a (js_neg b)"

text \<open>\<open>inf_of pos\<close> is the infinity of the given sign.\<close>

definition inf_of :: "bool \<Rightarrow> jsnum" where
  "inf_of pos = (if pos then PInf else NInf)"

fun js_mul :: "jsnum \<Rightarrow> jsnum \<Rightarrow> jsnum" where
  "js_mul NaN _ = NaN"
| "js_mul _ NaN = NaN"
| "js_mul (Fin a) (Fin b) = rnd (a * b)"
| "js_mul (Fin a) PInf = (if a = 0 then NaN else inf_of (0 < a))"
| "js_mul (Fin a) NInf = (if a = 0 then NaN else inf_of (a < 0))"
| "js_mul PInf (Fin b) = (if b = 0 then NaN else inf_of (0 < b))"
| "js_mul NInf (Fin b) = (if b = 0 then NaN else inf_of (b < 0))"
| "js_mul PInf PInf = PInf"
| "js_mul PInf NInf = NInf"
| "js_mul NInf PInf = NInf"
| "js_mul NInf NInf = PInf"

fun js_div :: "jsnum \<Rightarrow> jsnum \<Rightarrow> jsnum" where
  "js_div NaN _ = NaN"
| "js_div _ NaN = NaN"
| "js_div (Fin a) (Fin b) =
     (if b = 0 then (if a = 0 then NaN else inf_of (0 < a)) else rnd (a / b))"
| "js_div (Fin a) PInf = Fin 0"
| "js_div (Fin a) NInf = Fin 0"
| "js_div PInf (Fin b) = inf_of (0 \<le> b)"
| "js_div NInf (Fin b) = inf_of (b < 0)"
| "js_div PInf PInf = NaN"
| "js_div PInf NInf = NaN"
| "js_div NInf PInf = NaN"
| "js_div NInf NInf = NaN"

text \<open>
  \<open>Math.sqrt\<close>, \<open>Math.floor\<close>, and \<open>Math.pow(x, 2)\<close>, the only power the program takes
  (the square, rounded once).
\<close>

fun Math_sqrt :: "jsnum \<Rightarrow> jsnum" where
  "Math_sqrt (Fin a) = (if a < 0 then NaN else rnd (sqrt a))"
| "Math_sqrt PInf = PInf"
| "Math_sqrt NInf = NaN"
| "Math_sqrt NaN = NaN"

fun Math_floor :: "jsnum \<Rightarrow> jsnum" where
  "Math_floor (Fin a) = Fin (of_int \<lfloor>a\<rfloor>)"
| "Math_floor PInf = PInf"
| "Math_floor NInf = NInf"
| "Math_floor NaN = NaN"

definition Math_pow2 :: "jsnum \<Rightarrow> jsnum" where
  "Math_pow2 x = js_mul x x"

text \<open>The comparisons \<open><\<close>, \<open>>\<close>, \<open>>=\<close>: every comparison with NaN is false.\<close>

fun js_lt :: "jsnum \<Rightarrow> jsnum \<Rightarrow> bool" where
  "js_lt NaN _ = False"
| "js_lt _ NaN = False"
| "js_lt (Fin a) (Fin b) = (a < b)"
| "js_lt (Fin a) PInf = True"
| "js_lt (Fin a) NInf = False"
| "js_lt PInf _ = False"
| "js_lt NInf (Fin b) = True"
| "js_lt NInf PInf = True"
| "js_lt NInf NInf = False"

definition js_gt :: "jsnum \<Rightarrow> jsnum \<Rightarrow> bool" where
  "js_gt a b = js_lt b a"

definition js_ge :: "jsnum \<Rightarrow> jsnum \<Rightarrow> bool" where
  "js_ge a b = (a \<noteq> NaN \<and> b \<noteq> NaN \<and> \<not> js_lt a b)"

text \<open>A number is falsy when it is zero or NaN.\<close>

definition truthy :: "jsnum \<Rightarrow> bool" where
  "truthy n = (n \<noteq> Fin 0 \<and> n \<noteq> NaN)"

text \<open>
  A numeric field of a parsed JSON object: the key is missing (reading it gives
  \<open>undefined\<close>), holds \<open>null\<close>, or holds a number. \<open>or_zero f\<close> is \<open>f || 0\<close>;
  \<open>to_number f\<close> is the conversion that an arithmetic operator applies to its operand.
\<close>

datatype field = Missing | Null | Number jsnum

fun or_zero :: "field \<Rightarrow> jsnum" where
  "or_zero Missing = Fin 0"
| "or_zero Null = Fin 0"
| "or_zero (Number n) = (if truthy n then n else Fin 0)"

fun to_number :: "field \<Rightarrow> jsnum" where
  "to_number Missing = NaN"
| "to_number Null = Fin 0"
| "to_number (Number n) = n"

section \<open>Errors and awaited results\<close>

text \<open>
  Anything can be thrown. A thrown value is an error object with a message, some other
  value that is not \<open>undefined\<close> or \<open>null\<close> (a string, a number, a plain object) with
  the message it has, if any, or \<open>undefined\<close> or \<open>null\<close> itself. \<open>message_text e\<close> is
  what \<open>e.message\<close> gives inside a template literal: the message, the text
  \<open>undefined\<close> for a value without one, and nothing for \<open>undefined\<close> and \<open>null\<close>,
  on which reading a property throws.

  An awaited call either rejects with a thrown value (\<open>Inl\<close>) or resolves with a value
  (\<open>Inr\<close>); \<open>await r k\<close> continues with \<open>k\<close> on the value and leaves the enclosing
  block on a rejection.
\<close>

datatype jserror =
  Error string | TypeError string | SyntaxError string | Thrown "string option" | ThrownNullish

fun message_text :: "jserror \<Rightarrow> string option" where
  "message_text (Error m) = Some m"
| "message_text (TypeError m) = Some m"
| "message_text (SyntaxError m) = Some m"
| "message_text (Thrown (Some m)) = Some m"
| "message_text (Thrown None) = Some ''undefined''"
| "message_text ThrownNullish = None"

definition await :: "jserror + 'a \<Rightarrow> ('a \<Rightarrow> jserror + 'b) \<Rightarrow> jserror + 'b" where
  "await r k = (case r of Inl e \<Rightarrow> Inl e | Inr v \<Rightarrow> k v)"

text \<open>
  An HTTP response: the \<open>ok\<close> flag and what \<open>response.json()\<close> gives, a rejection when
  the body is not JSON. The body of an object-valued endpoint is \<open>null\<close> or an object.
\<close>

record 'a response =
  ok :: bool
  json :: "jserror + 'a"

datatype 'a body = BodyNull | BodyObj 'a

section \<open>VolatilityEstimator\<close>

text \<open>
  The loop of \<open>calculateVolatility\<close> that pushes one daily return per index
  \<open>i = 1 .. length - 1\<close>.
\<close>

function returns_loop :: "jsnum list \<Rightarrow> nat \<Rightarrow> jsnum list \<Rightarrow> jsnum list" where
  "returns_loop historicalPrices i returns =
     (if i < length historicalPrices
      then returns_loop historicalPrices (i + 1)
             (returns @ [js_div (js_sub (historicalPrices ! i) (historicalPrices ! (i - 1)))
                                (historicalPrices ! (i - 1))])
      else returns)"
  by pat_completeness auto
termination
  by (relation "measure (\<lambda>(ps, i, acc). length ps - i)") auto

declare returns_loop.simps [simp del]

definition calculateVolatility :: "jsnum list \<Rightarrow> jsnum" where
  "calculateVolatility historicalPrices =
     (if length historicalPrices < 2 then Fin 0
      else let returns = returns_loop historicalPrices 1 [];
               mean = js_div (foldl (\<lambda>sum v. js_add sum v) (Fin 0) returns)
                             (Fin (real (length returns)));
               variance = js_div (foldl (\<lambda>sum v. js_add sum (Math_pow2 (js_sub v mean)))
                                        (Fin 0) returns)
                                 (Fin (real (length returns)))
           in Math_sqrt variance)"

text \<open>
  The specification's words: the simple returns \<open>(p[i] - p[i-1]) / p[i-1]\<close> for
  \<open>i = 1 .. n - 1\<close>, and the population standard deviation of a sequence, the square
  root of the mean of the squared deviations from the mean (dividing by the count). Sums
  run from left to right, in the program's arithmetic.
\<close>

definition simple_returns :: "jsnum list \<Rightarrow> jsnum list" where
  "simple_returns p =
     map (\<lambda>i. js_div (js_sub (p ! i) (p ! (i - 1))) (p ! (i - 1))) [1 ..< length p]"

definition js_sum :: "jsnum list \<Rightarrow> jsnum" where
  "js_sum xs = foldl js_add (Fin 0) xs"

definition js_mean :: "jsnum list \<Rightarrow> jsnum" where
  "js_mean xs = js_div (js_sum xs) (Fin (real (length xs)))"

definition population_stddev :: "jsnum list \<Rightarrow> jsnum" where
  "population_stddev xs =
     Math_sqrt (js_mean (map (\<lambda>x. Math_pow2 (js_sub x (js_mean xs))) xs))"

section \<open>TokenCatalog\<close>

text \<open>
  A parsed JSON document. A value read from one is a JSON value or \<open>undefined\<close>
  (\<open>None\<close>). A token has the four fields that \<open>fetchTokensOnBase\<close> copies out of
  each entry of the list; nothing checks their types.
\<close>

datatype json =
  JNull | JBool bool | JNum jsnum | JStr string | JArr "json list" | JObj "(string \<times> json) list"

type_synonym jsval = "json option"

record token =
  symbol :: jsval
  address :: jsval
  decimals :: jsval
  name :: jsval

text \<open>
  Reading one of the keys \<open>symbol\<close>, \<open>address\<close>, \<open>decimals\<close>, \<open>name\<close> from a JSON
  value: \<open>null\<close> has no properties and the read throws, an object (one entry per key)
  gives the entry of the key, every other value gives \<open>undefined\<close>. (The wording of an
  engine's TypeError message is the engine's own.)
\<close>

fun get_prop :: "json \<Rightarrow> string \<Rightarrow> jserror + jsval" where
  "get_prop JNull k = Inl (TypeError (''Cannot read properties of null (reading '' @ k @ '')''))"
| "get_prop (JObj kvs) k = Inr (map_of kvs k)"
| "get_prop _ k = Inr None"

text \<open>The arrow function that \<open>tokens.map\<close> applies to each entry.\<close>

definition to_token :: "json \<Rightarrow> jserror + token" where
  "to_token t =
     await (get_prop t ''symbol'') (\<lambda>s.
     await (get_prop t ''address'') (\<lambda>a.
     await (get_prop t ''decimals'') (\<lambda>d.
     await (get_prop t ''name'') (\<lambda>n.
     Inr \<lparr>symbol = s, address = a, decimals = d, name = n\<rparr>))))"

text \<open>\<open>Array.prototype.map\<close> with a callback that may throw: the first throw ends it.\<close>

fun array_map :: "('a \<Rightarrow> jserror + 'b) \<Rightarrow> 'a list \<Rightarrow> jserror + 'b list" where
  "array_map f [] = Inr []"
| "array_map f (x # xs) = await (f x) (\<lambda>y. await (array_map f xs) (\<lambda>ys. Inr (y # ys)))"

text \<open>
  \<open>tokens.map(...)\<close> on whatever the document is: only an array has a callable \<open>map\<close>.
\<close>

fun tokens_map :: "json \<Rightarrow> jserror + token list" where
  "tokens_map (JArr ts) = array_map to_token ts"
| "tokens_map JNull = Inl (TypeError ''Cannot read properties of null (reading map)'')"
| "tokens_map _ = Inl (TypeError ''tokens.map is not a function'')"

definition fallbackTokens :: "token list" where
  "fallbackTokens =
     [\<lparr>symbol = Some (JStr ''USDC''),
       address = Some (JStr ''0x833589fCD6eDb6E08f4c7C32D4f71b54bdA02913''),
       decimals = Some (JNum (Fin 6)),
       name = Some (JStr ''USD Coin'')\<rparr>,
      \<lparr>symbol = Some (JStr ''WETH''),
       address = Some (JStr ''0x4200000000000000000000000000000000000006''),
       decimals = Some (JNum (Fin 18)),
       name = Some (JStr ''Wrapped Ether'')\<rparr>,
      \<lparr>symbol = Some (JStr ''BTC''),
       address = Some (JStr ''0x236aa50979D5f3De3Bd1Eeb40E81137F22ab794b''),
       decimals = Some (JNum (Fin 8)),
       name = Some (JStr ''Bitcoin'')\<rparr>,
      \<lparr>symbol = Some (JStr ''SOL''),
       address = Some (JStr ''0x1C6aE197fF4BF7BA96726FB6633cc0A8B0d169C8''),
       decimals = Some (JNum (Fin 9)),
       name = Some (JStr ''Solana'')\<rparr>]"

text \<open>
  \<open>fetchTokensOnBase\<close>, given what the one \<open>fetch\<close> of the token list does: the \<open>try\<close>
  block, then the \<open>catch\<close> that turns every throw into the default list.
\<close>

definition fetchTokensOnBase :: "jserror + json response \<Rightarrow> jserror + token list" where
  "fetchTokensOnBase fetched =
     (case await fetched (\<lambda>response.
             if \<not> ok response then Inl (Error ''Failed to fetch Base tokens'')
             else await (json response) (\<lambda>tokens. tokens_map tokens))
      of Inr ts \<Rightarrow> Inr ts
       | Inl error \<Rightarrow> Inr fallbackTokens)"

text \<open>
  The retrievals on which the code gives the default list: a network error, a status that
  is not a success, a body that is not JSON, a document that is not an array, or an array
  with a \<open>null\<close> entry. For every other array, \<open>entry_fields\<close> is the token made from
  an entry: the four fields of an object, \<open>undefined\<close> for a key it lacks and for every
  key of an entry that is not an object.
\<close>

definition fallback_case :: "jserror + json response \<Rightarrow> bool" where
  "fallback_case fetched =
     (case fetched of
        Inl e \<Rightarrow> True
      | Inr response \<Rightarrow>
          (if \<not> ok response then True
           else case json response of
                  Inl e \<Rightarrow> True
                | Inr (JArr entries) \<Rightarrow> JNull \<in> set entries
                | Inr _ \<Rightarrow> True))"

definition field_of :: "json \<Rightarrow> string \<Rightarrow> jsval" where
  "field_of t k = (case t of JObj kvs \<Rightarrow> map_of kvs k | _ \<Rightarrow> None)"

definition entry_fields :: "json \<Rightarrow> token" where
  "entry_fields t =
     \<lparr>symbol = field_of t ''symbol'', address = field_of t ''address'',
      decimals = field_of t ''decimals'', name = field_of t ''name''\<rparr>"

section \<open>TokenAnalyzer\<close>

text \<open>
  The parsed metrics object: its numeric fields by key, and \<open>historicalPrices\<close>, an array
  of numbers when present. A body that is neither \<open>null\<close> nor an object has none of the
  keys and behaves as the empty object.
\<close>

record metrics_payload =
  num_field :: "string \<Rightarrow> field"
  historicalPrices :: "jsnum list option"

record token_metrics =
  price :: jsnum
  volume24h :: jsnum
  priceChange24h :: jsnum
  liquidityUSD :: jsnum
  volatility :: jsnum
  volumeToLiquidity :: jsnum

text \<open>Reading a property of the parsed body throws on \<open>null\<close>.\<close>

fun read_body :: "string \<Rightarrow> 'a body \<Rightarrow> jserror + 'a" where
  "read_body k BodyNull =
     Inl (TypeError (''Cannot read properties of null (reading '' @ k @ '')''))"
| "read_body k (BodyObj m) = Inr m"

text \<open>
  \<open>getTokenMetrics\<close>. The request is made for \<open>token.address\<close>, so the network is a
  function of that address; the response's \<open>ok\<close> flag is not looked at. The \<open>catch\<close>
  turns every throw into \<open>null\<close> (\<open>None\<close>).
\<close>

definition getTokenMetrics ::
  "(jsval \<Rightarrow> jserror + metrics_payload body response) \<Rightarrow> 'a token_scheme
     \<Rightarrow> jserror + token_metrics option" where
  "getTokenMetrics fetch_metrics tok =
     (case await (fetch_metrics (address tok)) (\<lambda>response.
           await (json response) (\<lambda>parsed.
           await (read_body ''historicalPrices'' parsed) (\<lambda>m.
           let volatility = calculateVolatility
                              (case historicalPrices m of Some ps \<Rightarrow> ps | None \<Rightarrow> [])
           in Inr (Some \<lparr>price = or_zero (num_field m ''price''),
                          volume24h = or_zero (num_field m ''volume24h''),
                          priceChange24h = or_zero (num_field m ''priceChange24h''),
                          liquidityUSD = or_zero (num_field m ''liquidityUSD''),
                          volatility = volatility,
                          volumeToLiquidity =
                            or_zero (Number (js_div (to_number (num_field m ''volume24h''))
                                                    (to_number (num_field m ''liquidityUSD''))))\<rparr>))))
      of Inr r \<Rightarrow> Inr r
       | Inl error \<Rightarrow> Inr None)"

datatype risk_profile = High | Standard

record analyzed_token = token +
  riskProfile :: risk_profile
  metrics :: token_metrics

text \<open>
  The body of the callback of \<open>tokens.map\<close> in \<open>analyzeTokens\<close> once the metrics are
  there: the two flags, the conditional expression choosing the criteria, and the
  resulting object or \<open>null\<close>.
\<close>

definition classify :: "token \<Rightarrow> token_metrics \<Rightarrow> analyzed_token option" where
  "classify tok m =
     (let isHighVolatility = js_gt (volatility m) (lit (1 / 10));
          isHighTurnover = js_gt (volumeToLiquidity m) (lit (1 / 2));
          isProfitable =
            (if isHighVolatility \<and> isHighTurnover
             then js_ge (liquidityUSD m) (lit 25000) \<and>
                  js_ge (volume24h m) (lit 15000) \<and>
                  js_lt (priceChange24h m) (js_neg (lit 3))
             else js_ge (liquidityUSD m) (lit 100000) \<and>
                  js_ge (volume24h m) (lit 50000) \<and>
                  js_lt (priceChange24h m) (lit 0))
      in if isProfitable
         then Some \<lparr>symbol = symbol tok, address = address tok, decimals = decimals tok,
                     name = name tok,
                     riskProfile = (if isHighVolatility then High else Standard),
                     metrics = m\<rparr>
         else None)"

definition analyze_token ::
  "(jsval \<Rightarrow> jserror + metrics_payload body response) \<Rightarrow> token
     \<Rightarrow> jserror + analyzed_token option" where
  "analyze_token fetch_metrics tok =
     await (getTokenMetrics fetch_metrics tok) (\<lambda>fetched.
       case fetched of None \<Rightarrow> Inr None | Some m \<Rightarrow> Inr (classify tok m))"

text \<open>
  \<open>Promise.all\<close>: all the values in the order of the list, or the rejection of an element
  that rejects. \<open>non_null\<close> is \<open>filter(token => token !== null)\<close>.
\<close>

fun Promise_all :: "(jserror + 'a) list \<Rightarrow> jserror + 'a list" where
  "Promise_all [] = Inr []"
| "Promise_all (r # rs) = await r (\<lambda>v. await (Promise_all rs) (\<lambda>vs. Inr (v # vs)))"

definition non_null :: "'a option list \<Rightarrow> 'a list" where
  "non_null xs = List.map_filter (\<lambda>x. x) xs"

definition analyzeTokens ::
  "(jsval \<Rightarrow> jserror + metrics_payload body response) \<Rightarrow> token list
     \<Rightarrow> jserror + analyzed_token list" where
  "analyzeTokens fetch_metrics tokens =
     await (Promise_all (map (analyze_token fetch_metrics) tokens)) (\<lambda>analyzedTokens.
       Inr (non_null analyzedTokens))"

text \<open>
  The specification's words for the classification: the two policies, which of them
  applies, and the risk label.
\<close>

definition relaxed_policy :: "token_metrics \<Rightarrow> bool" where
  "relaxed_policy m =
     (js_ge (liquidityUSD m) (lit 25000) \<and> js_ge (volume24h m) (lit 15000) \<and>
      js_lt (priceChange24h m) (js_neg (lit 3)))"

definition standard_policy :: "token_metrics \<Rightarrow> bool" where
  "standard_policy m =
     (js_ge (liquidityUSD m) (lit 100000) \<and> js_ge (volume24h m) (lit 50000) \<and>
      js_lt (priceChange24h m) (lit 0))"

definition relaxed_applies :: "token_metrics \<Rightarrow> bool" where
  "relaxed_applies m =
     (js_gt (volatility m) (lit (1 / 10)) \<and> js_gt (volumeToLiquidity m) (lit (1 / 2)))"

definition passes_policy :: "token_metrics \<Rightarrow> bool" where
  "passes_policy m = (if relaxed_applies m then relaxed_policy m else standard_policy m)"

definition risk_of :: "token_metrics \<Rightarrow> risk_profile" where
  "risk_of m = (if js_gt (volatility m) (lit (1 / 10)) then High else Standard)"


fun falsy :: "field \<Rightarrow> bool" where
  "falsy Missing = True"
| "falsy Null = True"
| "falsy (Number n) = (n = Fin 0 \<or> n = NaN)"

section \<open>TradeExecutor\<close>

text \<open>
  The wallet abstraction. \<open>getContract\<close> gives the router, whose one method used here
  takes the arguments of the swap and gives a transaction handle; the handle is what its
  \<open>wait()\<close> does, a receipt with a hash or a rejection.
\<close>

record swap_call =
  amountOutMin :: jsnum
  path :: "jsval list"
  recipient :: string
  deadline :: jsnum
  msg_value :: jsnum

record tx_receipt =
  hash :: string

type_synonym tx = "jserror + tx_receipt"

type_synonym router = "swap_call \<Rightarrow> jserror + tx"

record wallet_client =
  getContract :: "string \<Rightarrow> string list \<Rightarrow> jserror + router"
  getAddress :: "jserror + string"

record trade_result =
  success :: bool
  hash :: string
  amount :: jsnum
  token :: jsval

definition WETH_ADDRESS :: string where
  "WETH_ADDRESS = ''0x4200000000000000000000000000000000000006''"

definition routerAddress :: string where
  "routerAddress = ''0xaa8d210f7c34a056Bb573f15962673C5c24fbd10''"

definition routerABI :: "string list" where
  "routerABI =
     [''function swapExactTokensForTokens(uint256 amountIn, uint256 amountOutMin, address[] calldata path, address to, uint256 deadline) external returns (uint256[] memory amounts)'',
      ''function swapExactETHForTokens(uint256 amountOutMin, address[] calldata path, address to, uint256 deadline) external payable returns (uint256[] memory amounts)'']"

text \<open>
  \<open>executeTrade\<close>, given the clock (\<open>Date.now()\<close>), the quote endpoint as a function of
  the token address and the amount in its URL, and the wallet. The parsed quote is
  \<open>null\<close> or an object with the field \<open>expectedOutput\<close>. \<open>executeTrade_try\<close> is the
  \<open>try\<close> block, its steps in the order of the source; \<open>executeTrade_catch\<close> is the
  \<open>catch\<close> block, which logs and throws a new error built from \<open>error.message\<close> of the
  value caught, and so throws a TypeError of its own when that value is \<open>undefined\<close> or
  \<open>null\<close>.
\<close>

definition executeTrade_try ::
  "jsnum \<Rightarrow> (jsval \<Rightarrow> jsnum \<Rightarrow> jserror + field body response) \<Rightarrow> wallet_client
     \<Rightarrow> 'a token_scheme \<Rightarrow> jsnum \<Rightarrow> jserror + trade_result" where
  "executeTrade_try now fetch_quote walletClient tok amt =
     await (getContract walletClient routerAddress routerABI) (\<lambda>router.
     let deadline = js_add (Math_floor (js_div now (lit 1000))) (lit 1800);
         path = [Some (JStr WETH_ADDRESS), address tok]
     in await (fetch_quote (address tok) amt) (\<lambda>quoteResponse.
        await (json quoteResponse) (\<lambda>quote.
        await (read_body ''expectedOutput'' quote) (\<lambda>expectedOutput.
        let slippageTolerance = lit (5 / 1000);
            minimumAmountOut =
              Math_floor (js_mul (to_number expectedOutput) (js_sub (lit 1) slippageTolerance))
        in await (getAddress walletClient) (\<lambda>to.
           await (router \<lparr>amountOutMin = minimumAmountOut, path = path, recipient = to,
                           deadline = deadline, msg_value = amt\<rparr>) (\<lambda>tx.
           await tx (\<lambda>receipt.
           Inr \<lparr>success = True, hash = tx_receipt.hash receipt, amount = amt,
                 token = symbol tok\<rparr>)))))))"

definition executeTrade_catch :: "jserror \<Rightarrow> jserror + trade_result" where
  "executeTrade_catch error =
     (case message_text error of
        None \<Rightarrow> Inl (TypeError ''Cannot read properties of undefined (reading message)'')
      | Some m \<Rightarrow> Inl (Error (''Failed to execute trade: '' @ m)))"

definition executeTrade ::
  "jsnum \<Rightarrow> (jsval \<Rightarrow> jsnum \<Rightarrow> jserror + field body response) \<Rightarrow> wallet_client
     \<Rightarrow> 'a token_scheme \<Rightarrow> jsnum \<Rightarrow> jserror + trade_result" where
  "executeTrade now fetch_quote walletClient tok amt =
     (case executeTrade_try now fetch_quote walletClient tok amt of
        Inr r \<Rightarrow> Inr r
      | Inl error \<Rightarrow> executeTrade_catch error)"


definition minimum_amount_out :: "jsnum \<Rightarrow> jsnum" where
  "minimum_amount_out expectedOutput =
     Math_floor (js_mul expectedOutput (js_sub (lit 1) (lit (5 / 1000))))"

definition swap_call_of :: "jsnum \<Rightarrow> 'a token_scheme \<Rightarrow> jsnum \<Rightarrow> field \<Rightarrow> string \<Rightarrow> swap_call" where
  "swap_call_of now tok amt expectedOutput to =
     \<lparr>amountOutMin = minimum_amount_out (to_number expectedOutput),
      path = [Some (JStr WETH_ADDRESS), address tok],
      recipient = to,
      deadline = js_add (Math_floor (js_div now (lit 1000))) (lit 1800),
      msg_value = amt\<rparr>"


section \<open>LifecycleWrapper\<close>

text \<open>
  The plugin that \<open>createRabbiTraderPlugin\<close> gives, seen through what each of its
  methods does when called; \<open>onStart\<close> and \<open>cleanup\<close> are optional. The client has its
  \<open>interval\<close> slot and its \<open>plugin\<close> field, \<open>undefined\<close> (\<open>None\<close>) until the plugin is
  created. A run of a method gives the client after it, the plugin methods invoked so
  far, and the result of the promise the method returns.
\<close>

record plugin_instance =
  initialize :: "jserror + unit"
  start :: "jserror + unit"
  onStart :: "(jserror + unit) option"
  cleanup :: "(jserror + unit) option"

datatype plugin_call = Initialize | Start | OnStart | Cleanup

record auto_client =
  interval :: "nat option"
  plugin :: "plugin_instance option"

record run =
  this :: auto_client
  invoked :: "plugin_call list"
  result :: "jserror + unit"

text \<open>
  \<open>initializePlugin\<close>: create, \<open>initialize\<close>, \<open>start\<close>, then \<open>onStart\<close> when the plugin
  has one; the \<open>catch\<close> logs and throws the same error again.
\<close>

definition AutoClient_initializePlugin ::
  "(jserror + plugin_instance) \<Rightarrow> auto_client \<Rightarrow> plugin_call list \<Rightarrow> run" where
  "AutoClient_initializePlugin createRabbiTraderPlugin client calls =
     (case createRabbiTraderPlugin of
        Inl error \<Rightarrow> \<lparr>this = client, invoked = calls, result = Inl error\<rparr>
      | Inr p \<Rightarrow>
          (let client' = client\<lparr>plugin := Some p\<rparr> in
           case initialize p of
             Inl error \<Rightarrow> \<lparr>this = client', invoked = calls @ [Initialize], result = Inl error\<rparr>
           | Inr _ \<Rightarrow>
               (case start p of
                  Inl error \<Rightarrow>
                    \<lparr>this = client', invoked = calls @ [Initialize, Start], result = Inl error\<rparr>
                | Inr _ \<Rightarrow>
                    (case onStart p of
                       None \<Rightarrow>
                         \<lparr>this = client', invoked = calls @ [Initialize, Start],
                          result = Inr ()\<rparr>
                     | Some r \<Rightarrow>
                         \<lparr>this = client', invoked = calls @ [Initialize, Start, OnStart],
                          result = r\<rparr>))))"

text \<open>\<open>initialize\<close> of the client: awaits \<open>initializePlugin\<close> and rethrows its error.\<close>

definition AutoClient_initialize ::
  "(jserror + plugin_instance) \<Rightarrow> auto_client \<Rightarrow> plugin_call list \<Rightarrow> run" where
  "AutoClient_initialize createRabbiTraderPlugin client calls =
     (let r = AutoClient_initializePlugin createRabbiTraderPlugin client calls in
      case result r of Inl error \<Rightarrow> r\<lparr>result := Inl error\<rparr> | Inr _ \<Rightarrow> r)"

text \<open>
  The constructor calls \<open>this.initialize()\<close> and drops the promise it returns: the
  \<open>new\<close> expression completes with the client whatever that promise does, and a
  rejection of the dropped promise is handled by nobody. The client is given as it is
  once the initialization has run to its end.
\<close>

record construction =
  constructed :: "jserror + auto_client"
  plugin_calls :: "plugin_call list"
  unhandled_rejection :: "jserror option"

definition AutoClient_constructor :: "(jserror + plugin_instance) \<Rightarrow> construction" where
  "AutoClient_constructor createRabbiTraderPlugin =
     (let r = AutoClient_initialize createRabbiTraderPlugin \<lparr>interval = None, plugin = None\<rparr> []
      in \<lparr>constructed = Inr (this r),
          plugin_calls = invoked r,
          unhandled_rejection = (case result r of Inl error \<Rightarrow> Some error | Inr _ \<Rightarrow> None)\<rparr>)"

text \<open>\<open>AutoClientInterface.start\<close>: constructs the client and resolves with it.\<close>

definition AutoClientInterface_start :: "(jserror + plugin_instance) \<Rightarrow> construction" where
  "AutoClientInterface_start createRabbiTraderPlugin =
     (let c = AutoClient_constructor createRabbiTraderPlugin in
      c\<lparr>constructed := await (constructed c) (\<lambda>client. Inr client)\<rparr>)"

text \<open>
  \<open>stop\<close>: clears the interval when one is set, awaits the plugin's \<open>cleanup\<close> when the
  plugin is there and has one; the \<open>catch\<close> logs and throws the same error again.
\<close>

definition AutoClient_stop :: "auto_client \<Rightarrow> plugin_call list \<Rightarrow> run" where
  "AutoClient_stop client calls =
     (let client' = (case interval client of
                       Some timer \<Rightarrow> client\<lparr>interval := None\<rparr>
                     | None \<Rightarrow> client)
      in case plugin client' of
           None \<Rightarrow> \<lparr>this = client', invoked = calls, result = Inr ()\<rparr>
         | Some p \<Rightarrow>
             (case cleanup p of
                None \<Rightarrow> \<lparr>this = client', invoked = calls, result = Inr ()\<rparr>
              | Some r \<Rightarrow> \<lparr>this = client', invoked = calls @ [Cleanup], result = r\<rparr>))"

section \<open>Concrete inputs\<close>

text \<open>
  Inputs at which the properties below are evaluated: two tokens of the default list, a
  metrics object built from its entries, a metrics endpoint that serves one object for
  every address, and one that is down for a single address.
\<close>

definition USDC :: token where
  "USDC = \<lparr>symbol = Some (JStr ''USDC''),
           address = Some (JStr ''0x833589fCD6eDb6E08f4c7C32D4f71b54bdA02913''),
           decimals = Some (JNum (Fin 6)),
           name = Some (JStr ''USD Coin'')\<rparr>"

definition WETH :: token where
  "WETH = \<lparr>symbol = Some (JStr ''WETH''),
           address = Some (JStr ''0x4200000000000000000000000000000000000006''),
           decimals = Some (JNum (Fin 18)),
           name = Some (JStr ''Wrapped Ether'')\<rparr>"

definition payload_of :: "(string \<times> field) list \<Rightarrow> jsnum list option \<Rightarrow> metrics_payload" where
  "payload_of kvs ps =
     \<lparr>num_field = (\<lambda>k. case map_of kvs k of Some f \<Rightarrow> f | None \<Rightarrow> Missing),
      historicalPrices = ps\<rparr>"

definition serve :: "metrics_payload \<Rightarrow> jsval \<Rightarrow> jserror + metrics_payload body response" where
  "serve m a = Inr \<lparr>ok = True, json = Inr (BodyObj m)\<rparr>"





definition zero_payload :: metrics_payload where
  "zero_payload =
     payload_of [(''price'', Null), (''volume24h'', Number (Fin 0)),
                 (''liquidityUSD'', Number NaN)] (Some [Fin 100, Fin 110, Fin 99])"

text \<open>
  A quote endpoint that answers with a given \<open>expectedOutput\<close> and one that is down; a
  router that accepts every swap, one that accepts a swap only with a minimum output of
  995, one whose transaction is never confirmed, and one whose transaction rejects with
  \<open>undefined\<close>; a wallet around a router.
\<close>

definition quote_of :: "field \<Rightarrow> jsval \<Rightarrow> jsnum \<Rightarrow> jserror + field body response" where
  "quote_of expectedOutput a n = Inr \<lparr>ok = True, json = Inr (BodyObj expectedOutput)\<rparr>"



definition picky_router :: router where
  "picky_router call =
     (if amountOutMin call = Fin 995 then Inr (Inr \<lparr>tx_receipt.hash = ''0xabc''\<rparr>)
      else Inl (Error ''INSUFFICIENT_OUTPUT_AMOUNT''))"


definition silent_router :: router where
  "silent_router call = Inr (Inl ThrownNullish)"

definition wallet_with :: "router \<Rightarrow> wallet_client" where
  "wallet_with r = \<lparr>getContract = (\<lambda>a abi. Inr r), getAddress = Inr ''0xme''\<rparr>"


text \<open>
  A plugin whose \<open>initialize\<close> fails, and one whose \<open>initialize\<close> and \<open>cleanup\<close> both
  fail.
\<close>

definition failing_plugin :: plugin_instance where
  "failing_plugin =
     \<lparr>initialize = Inl (Error ''init failed''), start = Inr (), onStart = None,
      cleanup = None\<rparr>"

definition stuck_plugin :: plugin_instance where
  "stuck_plugin =
     \<lparr>initialize = Inl (Error ''init failed''), start = Inr (), onStart = None,
      cleanup = Some (Inl (Error ''cleanup failed''))\<rparr>"

section \<open>Properties of the VolatilityEstimator\<close>

lemma rnd_zero: "rnd 0 = Fin 0"
  by (simp add: rnd_def)

text \<open>
  The rounding at some well-known points: 0.1 is the binary64 value
  \<open>3602879701896397 / 2 ^ 55\<close>, and the integers \<open>2 ^ 53 + 1\<close> and \<open>2 ^ 53 + 3\<close>
  are ties that go to their even neighbours \<open>2 ^ 53\<close> and \<open>2 ^ 53 + 4\<close>.
\<close>

lemma rnd_one_tenth: "rnd (1 / 10) = Fin (3602879701896397 / 36028797018963968)"
  by code_simp

lemma rnd_integer_tie:
  "rnd 9007199254740993 = Fin 9007199254740992"
  "rnd 9007199254740995 = Fin 9007199254740996"
  by code_simp+

lemma returns_loop_eq:
  "returns_loop ps i acc =
     acc @ map (\<lambda>i. js_div (js_sub (ps ! i) (ps ! (i - 1))) (ps ! (i - 1))) [i ..< length ps]"
proof (induction ps i acc rule: returns_loop.induct)
  case (1 ps i acc)
  let ?f = "\<lambda>i. js_div (js_sub (ps ! i) (ps ! (i - 1))) (ps ! (i - 1))"
  show ?case
  proof (cases "i < length ps")
    case True
    have "returns_loop ps i acc = returns_loop ps (i + 1) (acc @ [?f i])"
      using True by (subst returns_loop.simps) simp
    also have "\<dots> = (acc @ [?f i]) @ map ?f [i + 1 ..< length ps]"
      using "1.IH" [OF True] .
    also have "\<dots> = acc @ map ?f [i ..< length ps]"
      using True by (simp add: upt_rec [of i])
    finally show ?thesis .
  next
    case False
    then show ?thesis by (subst returns_loop.simps) simp
  qed
qed

lemma returns_loop_simple_returns: "returns_loop ps (Suc 0) [] = simple_returns ps"
  by (simp add: returns_loop_eq simple_returns_def)

lemma calculateVolatility_stddev:
  "2 \<le> length ps \<Longrightarrow> calculateVolatility ps = population_stddev (simple_returns ps)"
  by (simp add: calculateVolatility_def population_stddev_def js_mean_def js_sum_def
      returns_loop_simple_returns foldl_map Let_def)

lemma js_sum_zeros: "foldl js_add (Fin 0) (replicate k (Fin 0)) = Fin 0"
  by (induction k) (simp_all add: rnd_zero)

lemma simple_returns_const:
  "c \<noteq> 0 \<Longrightarrow> simple_returns (replicate n (Fin c)) = replicate (n - 1) (Fin 0)"
  by (auto simp: simple_returns_def js_sub_def rnd_zero list_eq_iff_nth_eq)

lemma stddev_zeros: "0 < k \<Longrightarrow> population_stddev (replicate k (Fin 0)) = Fin 0"
  by (simp add: population_stddev_def js_mean_def js_sum_def js_sum_zeros rnd_zero
      js_sub_def Math_pow2_def map_replicate_const)

lemma calculateVolatility_short: "length ps < 2 \<Longrightarrow> calculateVolatility ps = Fin 0"
  by (simp add: calculateVolatility_def)

lemma calculateVolatility_const:
  "2 \<le> n \<Longrightarrow> c \<noteq> 0 \<Longrightarrow> calculateVolatility (replicate n (Fin c)) = Fin 0"
  by (simp add: calculateVolatility_stddev simple_returns_const stddev_zeros)

text \<open>
  Two facts for evaluating \<open>rnd\<close> at a point given by bounds rather than by a numeral
  (the square root of a rational): the exponent of a value below 1, and the nearest
  integer.
\<close>

lemma pow2_power_int: "pow2 k = power_int 2 k"
  by (simp add: pow2_def power_int_def inverse_eq_divide power_one_over)

lemma pow2_Suc: "pow2 (k + 1) = 2 * pow2 k"
  by (simp add: pow2_power_int power_int_add)

lemma pow2_le_one: "k \<le> 0 \<Longrightarrow> pow2 k \<le> 1"
  by (simp add: pow2_def divide_le_eq)

lemma expo_down_eq:
  "pow2 (- int j) \<le> x \<Longrightarrow> x < pow2 (1 - int j) \<Longrightarrow> - 1022 \<le> k - int j \<Longrightarrow>
   expo_down x k = k - int j"
proof (induction j arbitrary: x k)
  case 0
  then show ?case by (subst expo_down.simps) (simp add: pow2_def)
next
  case (Suc j)
  have step: "pow2 (- int j) = 2 * pow2 (- int (Suc j))"
    using pow2_Suc [of "- int (Suc j)"] by simp
  have step': "pow2 (1 - int j) = 2 * pow2 (1 - int (Suc j))"
    using pow2_Suc [of "1 - int (Suc j)"] by simp
  have "pow2 (1 - int (Suc j)) \<le> 1"
    by (rule pow2_le_one) simp
  with Suc.prems(2) have x1: "x < 1" by linarith
  have lo: "pow2 (- int j) \<le> x * 2"
    using Suc.prems(1) unfolding step by linarith
  have hi: "x * 2 < pow2 (1 - int j)"
    using Suc.prems(2) unfolding step' by linarith
  have "expo_down x k = expo_down (x * 2) (k - 1)"
    using x1 Suc.prems(3) by (subst expo_down.simps) simp
  also have "\<dots> = (k - 1) - int j"
    using Suc.IH [OF lo hi] Suc.prems(3) by simp
  finally show ?case by simp
qed

lemma rne_nearest: "\<bar>y - of_int n\<bar> < 1 / 2 \<Longrightarrow> rne y = n"
proof -
  assume near: "\<bar>y - of_int n\<bar> < 1 / 2"
  show ?thesis
  proof (cases "of_int n \<le> y")
    case True
    with near have "\<lfloor>y\<rfloor> = n" by (intro floor_unique) auto
    with near True show ?thesis by (simp add: rne_def Let_def)
  next
    case False
    with near have "\<lfloor>y\<rfloor> = n - 1" by (intro floor_unique) auto
    with near False show ?thesis by (simp add: rne_def Let_def)
  qed
qed

text \<open>
  The example worked out in the specification: for the prices 100, 110, 99 the returns are
  0.1 and -0.1 (as binary64 values), their mean is 0, and the volatility is the binary64
  value of 0.1, which is not above the threshold \<open>0.1\<close> of the analyzer.
\<close>

lemma simple_returns_example:
  "simple_returns [Fin 100, Fin 110, Fin 99] =
     [Fin (3602879701896397 / 36028797018963968), Fin (- 3602879701896397 / 36028797018963968)]"
  by code_simp

lemma sqrt_example:
  "rnd (sqrt (1441151880758559 / 144115188075855872)) =
     Fin (3602879701896397 / 36028797018963968)"
proof -
  let ?s = "1441151880758559 / 144115188075855872 :: real"
  let ?y = "sqrt ?s"
  have pos: "0 < ?y" by simp
  have lo: "1 / 16 \<le> ?y" by (rule real_le_rsqrt) (simp add: power2_eq_square)
  have hi: "?y < 1 / 8" by (rule real_less_lsqrt) (simp_all add: power2_eq_square)
  have e: "expo \<bar>?y\<bar> = - 4"
    using expo_down_eq [of 4 ?y 0] lo hi pos by (simp add: expo_def pow2_def)
  have q: "pow2 (- 4 - 52) = 1 / 72057594037927936"
    by (simp add: pow2_def)
  have "(7205759403792794 - 1 / 2) / 72057594037927936 < ?y"
    by (rule real_less_rsqrt) (simp add: power2_eq_square)
  then have below: "7205759403792794 - 1 / 2 < ?y * 72057594037927936"
    by (simp add: pos_divide_less_eq)
  have "?y < (7205759403792794 + 1 / 2) / 72057594037927936"
    by (rule real_less_lsqrt) (simp_all add: power2_eq_square)
  then have above: "?y * 72057594037927936 < 7205759403792794 + 1 / 2"
    by (simp add: pos_less_divide_eq)
  have scaled: "?y / (1 / 72057594037927936) = ?y * 72057594037927936"
    by simp
  have "\<bar>?y / (1 / 72057594037927936) - of_int 7205759403792794\<bar> < 1 / 2"
    unfolding scaled using below above by linarith
  then have m: "rne (?y / (1 / 72057594037927936)) = 7205759403792794"
    by (rule rne_nearest)
  have "?y \<noteq> 0" using pos by simp
  then show ?thesis
    unfolding rnd_def Let_def e q m by simp
qed

lemma calculateVolatility_example:
  "calculateVolatility [Fin 100, Fin 110, Fin 99] = lit (1 / 10) \<and>
   \<not> js_gt (calculateVolatility [Fin 100, Fin 110, Fin 99]) (lit (1 / 10))"
proof -
  let ?d = "3602879701896397 / 36028797018963968 :: real"
  have mean: "js_mean [Fin ?d, Fin (- ?d)] = Fin 0"
    by code_simp
  have var: "js_mean (map (\<lambda>x. Math_pow2 (js_sub x (Fin 0))) [Fin ?d, Fin (- ?d)])
      = Fin (1441151880758559 / 144115188075855872)"
    by code_simp
  have "calculateVolatility [Fin 100, Fin 110, Fin 99] = Fin ?d"
    using sqrt_example
    by (simp add: calculateVolatility_stddev simple_returns_example population_stddev_def
        mean var del: list.map)
  then show ?thesis
    by (simp add: lit_def rnd_one_tenth js_gt_def)
qed

text \<open>
  C4, as stated, fails for the constant sequence of two zero prices: the one return is
  \<open>0 / 0\<close>, so the result is NaN and not 0.
\<close>

theorem calculateVolatility_zero_prices_counterexample:
  "calculateVolatility (replicate 2 (Fin 0)) = NaN \<and> calculateVolatility (replicate 2 (Fin 0)) \<noteq> Fin 0"
  by (simp add: calculateVolatility_stddev simple_returns_def population_stddev_def
      js_mean_def js_sum_def js_sub_def rnd_zero Math_pow2_def numeral_2_eq_2)

text \<open>
  C4 (amended). For every price sequence: with fewer than 2 elements
  \<open>calculateVolatility\<close> returns exactly 0; otherwise it returns the population standard
  deviation (dividing by the count) of the simple returns \<open>(p[i] - p[i-1]) / p[i-1]\<close> for
  \<open>i = 1 .. n - 1\<close>, computed in the program's arithmetic; in particular it returns 0 for
  every constant sequence of length at least 2 whose price is finite and not zero.
\<close>

theorem calculateVolatility_spec:
  "(length short < 2 \<longrightarrow> calculateVolatility short = Fin 0) \<and>
   (2 \<le> length ps \<longrightarrow> calculateVolatility ps = population_stddev (simple_returns ps)) \<and>
   (2 \<le> n \<and> c \<noteq> 0 \<longrightarrow> calculateVolatility (replicate n (Fin c)) = Fin 0)"
  using calculateVolatility_short [of short] calculateVolatility_stddev [of ps]
    calculateVolatility_const [of n c]
  by blast

theorem calculateVolatility_spec_witness:
  "calculateVolatility [Fin 7] = Fin 0 \<and>
   population_stddev (simple_returns [Fin 100, Fin 110, Fin 99]) = lit (1 / 10) \<and>
   calculateVolatility (replicate 3 (Fin 5)) = Fin 0"
  using calculateVolatility_spec [of "[Fin 7]" "[Fin 100, Fin 110, Fin 99]" 3 5]
    calculateVolatility_example
  by simp

section \<open>Properties of the TokenCatalog\<close>

lemma await_Inr [simp]: "await (Inr v) k = k v"
  by (simp add: await_def)

lemma await_Inl [simp]: "await (Inl e) k = Inl e"
  by (simp add: await_def)

lemma array_map_null_entry: "JNull \<in> set ts \<Longrightarrow> \<exists>e. array_map to_token ts = Inl e"
proof (induction ts)
  case Nil
  then show ?case by simp
next
  case (Cons t ts)
  show ?case
  proof (cases "to_token t")
    case (Inl e)
    then show ?thesis by simp
  next
    case (Inr tok)
    with Cons have "t \<noteq> JNull" by (auto simp: to_token_def)
    with Cons obtain e where "array_map to_token ts = Inl e" by auto
    with Inr show ?thesis by simp
  qed
qed

lemma to_token_entry_fields: "t \<noteq> JNull \<Longrightarrow> to_token t = Inr (entry_fields t)"
  by (cases t) (simp_all add: to_token_def entry_fields_def field_of_def)

lemma array_map_entry_fields:
  "JNull \<notin> set ts \<Longrightarrow> array_map to_token ts = Inr (map entry_fields ts)"
  by (induction ts) (auto simp: to_token_entry_fields)

lemma fetchTokensOnBase_null_entry:
  "JNull \<in> set ts \<Longrightarrow>
   fetchTokensOnBase (Inr \<lparr>ok = True, json = Inr (JArr ts)\<rparr>) = Inr fallbackTokens"
  using array_map_null_entry [of ts] by (auto simp: fetchTokensOnBase_def)

text \<open>
  C6, as stated, fails for a payload that is an array but not a list of token objects:
  for the document \<open>[5, {}]\<close> nothing throws, and the result is two tokens with all
  fields \<open>undefined\<close>, not the default list.
\<close>

theorem fetchTokensOnBase_malformed_array_counterexample:
  "fetchTokensOnBase (Inr \<lparr>ok = True, json = Inr (JArr [JNum (Fin 5), JObj []])\<rparr>) =
     Inr [\<lparr>symbol = None, address = None, decimals = None, name = None\<rparr>,
          \<lparr>symbol = None, address = None, decimals = None, name = None\<rparr>] \<and>
   fetchTokensOnBase (Inr \<lparr>ok = True, json = Inr (JArr [JNum (Fin 5), JObj []])\<rparr>) \<noteq>
     Inr fallbackTokens"
  by (simp add: fetchTokensOnBase_def to_token_def fallbackTokens_def)

text \<open>
  C6 (amended). \<open>fetchTokensOnBase\<close> never raises to its caller. On a network error, a
  non-success status, a body that is not JSON, a document that is not an array, or an
  array with a \<open>null\<close> entry it returns exactly the fixed list of four tokens, whose
  symbols are USDC, WETH, BTC and SOL with the literal addresses and decimals of the
  source. In every other case the document is an array without a \<open>null\<close> entry, and the
  result is that array mapped entry by entry to the four fields, \<open>undefined\<close> where an
  entry lacks one; the default list is not substituted.
\<close>

theorem fetchTokensOnBase_fallback:
  "(\<exists>ts. fetchTokensOnBase fetched = Inr ts) \<and>
   (fallback_case fetched \<longrightarrow> fetchTokensOnBase fetched = Inr fallbackTokens) \<and>
   (\<not> fallback_case fetched \<longrightarrow>
      (\<exists>response entries. fetched = Inr response \<and> ok response \<and>
         json response = Inr (JArr entries) \<and> JNull \<notin> set entries \<and>
         fetchTokensOnBase fetched = Inr (map entry_fields entries))) \<and>
   map symbol fallbackTokens =
     [Some (JStr ''USDC''), Some (JStr ''WETH''), Some (JStr ''BTC''), Some (JStr ''SOL'')] \<and>
   map address fallbackTokens =
     [Some (JStr ''0x833589fCD6eDb6E08f4c7C32D4f71b54bdA02913''),
      Some (JStr ''0x4200000000000000000000000000000000000006''),
      Some (JStr ''0x236aa50979D5f3De3Bd1Eeb40E81137F22ab794b''),
      Some (JStr ''0x1C6aE197fF4BF7BA96726FB6633cc0A8B0d169C8'')] \<and>
   map decimals fallbackTokens =
     [Some (JNum (Fin 6)), Some (JNum (Fin 18)), Some (JNum (Fin 8)), Some (JNum (Fin 9))]"
proof (intro conjI impI)
  show "\<exists>ts. fetchTokensOnBase fetched = Inr ts"
    by (simp add: fetchTokensOnBase_def split: sum.splits)
next
  assume "fallback_case fetched"
  then show "fetchTokensOnBase fetched = Inr fallbackTokens"
    by (auto simp: fetchTokensOnBase_def fallback_case_def dest: array_map_null_entry
        split: sum.splits json.splits if_splits)
next
  assume "\<not> fallback_case fetched"
  then obtain response entries where r: "fetched = Inr response" "ok response"
    "json response = Inr (JArr entries)" "JNull \<notin> set entries"
    by (auto simp: fallback_case_def split: sum.splits json.splits if_splits)
  then have "fetchTokensOnBase fetched = Inr (map entry_fields entries)"
    by (simp add: fetchTokensOnBase_def array_map_entry_fields)
  with r show "\<exists>response entries. fetched = Inr response \<and> ok response \<and>
      json response = Inr (JArr entries) \<and> JNull \<notin> set entries \<and>
      fetchTokensOnBase fetched = Inr (map entry_fields entries)"
    by blast
qed (simp_all add: fallbackTokens_def)

theorem fetchTokensOnBase_fallback_witness:
  "fetchTokensOnBase (Inl (TypeError ''fetch failed'')) = Inr fallbackTokens \<and>
   fetchTokensOnBase (Inr \<lparr>ok = False, json = Inr (JArr [])\<rparr>) = Inr fallbackTokens \<and>
   fetchTokensOnBase (Inr \<lparr>ok = True, json = Inl (SyntaxError ''Unexpected token'')\<rparr>)
     = Inr fallbackTokens \<and>
   fetchTokensOnBase (Inr \<lparr>ok = True, json = Inr (JObj [(''tokens'', JArr [])])\<rparr>)
     = Inr fallbackTokens \<and>
   fetchTokensOnBase (Inr \<lparr>ok = True, json = Inr (JArr [JObj [], JNull])\<rparr>)
     = Inr fallbackTokens \<and>
   fetchTokensOnBase
     (Inr \<lparr>ok = True,
           json = Inr (JArr [JObj [(''symbol'', JStr ''DAI''), (''decimals'', JNum (Fin 18))],
                             JNum (Fin 5)])\<rparr>)
     = Inr [\<lparr>symbol = Some (JStr ''DAI''), address = None, decimals = Some (JNum (Fin 18)),
             name = None\<rparr>,
            \<lparr>symbol = None, address = None, decimals = None, name = None\<rparr>]"
  using fetchTokensOnBase_fallback [of "Inl (TypeError ''fetch failed'')"]
    fetchTokensOnBase_fallback [of "Inr \<lparr>ok = False, json = Inr (JArr [])\<rparr>"]
    fetchTokensOnBase_fallback [of "Inr \<lparr>ok = True, json = Inl (SyntaxError ''Unexpected token'')\<rparr>"]
    fetchTokensOnBase_fallback [of "Inr \<lparr>ok = True, json = Inr (JObj [(''tokens'', JArr [])])\<rparr>"]
    fetchTokensOnBase_fallback [of "Inr \<lparr>ok = True, json = Inr (JArr [JObj [], JNull])\<rparr>"]
    fetchTokensOnBase_fallback
      [of "Inr \<lparr>ok = True,
                 json = Inr (JArr [JObj [(''symbol'', JStr ''DAI''),
                                         (''decimals'', JNum (Fin 18))],
                                   JNum (Fin 5)])\<rparr>"]
  by (simp add: fallback_case_def entry_fields_def field_of_def)

section \<open>Properties of the TokenAnalyzer\<close>

lemma lit_0: "lit 0 = Fin 0"
  by (simp add: lit_def rnd_def)

lemma lit_3: "lit 3 = Fin 3"
  unfolding lit_def by code_simp


lemma or_zero_falsy: "falsy f \<Longrightarrow> or_zero f = Fin 0"
  by (cases f) (auto simp: truthy_def)

lemma getTokenMetrics_total: "\<exists>r. getTokenMetrics net tok = Inr r"
  by (simp add: getTokenMetrics_def split: sum.splits)


lemma classify_policy:
  "classify tok m =
     (if passes_policy m
      then Some \<lparr>symbol = symbol tok, address = address tok, decimals = decimals tok,
                  name = name tok, riskProfile = risk_of m, metrics = m\<rparr>
      else None)"
  by (simp add: classify_def passes_policy_def relaxed_applies_def relaxed_policy_def
      standard_policy_def risk_of_def Let_def)

lemma analyze_token_total: "\<exists>r. analyze_token net tok = Inr r"
  using getTokenMetrics_total [of net tok]
  by (auto simp: analyze_token_def split: option.splits)


lemma analyze_token_Some:
  "analyze_token net tok = Inr (Some a) \<Longrightarrow>
     token.truncate a = tok \<and> passes_policy (metrics a) \<and> riskProfile a = risk_of (metrics a)
     \<and> getTokenMetrics net tok = Inr (Some (metrics a))"
  using getTokenMetrics_total [of net tok]
  by (auto simp: analyze_token_def classify_policy token.truncate_def
      split: option.splits if_splits)

lemma Promise_all_map_Inr:
  "\<forall>t \<in> set ts. \<exists>r. f t = Inr r \<Longrightarrow>
     Promise_all (map f ts) = Inr (map (\<lambda>t. projr (f t)) ts)"
  by (induction ts) auto

lemma analyzeTokens_eq:
  "analyzeTokens net tokens = Inr (non_null (map (\<lambda>t. projr (analyze_token net t)) tokens))"
  using Promise_all_map_Inr [of tokens "analyze_token net"] analyze_token_total [of net]
  by (simp add: analyzeTokens_def)

lemma non_null_Nil: "non_null [] = []"
  by (simp add: non_null_def)

lemma non_null_Cons:
  "non_null (x # xs) = (case x of None \<Rightarrow> non_null xs | Some v \<Rightarrow> v # non_null xs)"
  by (simp add: non_null_def split: option.splits)

lemma set_non_null: "set (non_null xs) = {v. Some v \<in> set xs}"
  by (induction xs) (auto simp: non_null_Cons non_null_Nil split: option.splits)

lemma analyzeTokens_member:
  assumes out: "analyzeTokens net tokens = Inr out" and a: "a \<in> set out"
  shows "\<exists>t \<in> set tokens. analyze_token net t = Inr (Some a)"
proof -
  from out have "out = non_null (map (\<lambda>t. projr (analyze_token net t)) tokens)"
    by (simp add: analyzeTokens_eq)
  with a obtain t where t: "t \<in> set tokens" "projr (analyze_token net t) = Some a"
    by (auto simp: set_non_null)
  obtain r where "analyze_token net t = Inr r"
    using analyze_token_total by blast
  with t show ?thesis by auto
qed


lemma analyzeTokens_absent:
  assumes none: "analyze_token net t = Inr None"
    and out: "analyzeTokens net tokens = Inr out"
  shows "t \<notin> set (map token.truncate out)"
proof
  assume "t \<in> set (map token.truncate out)"
  then obtain a where a: "a \<in> set out" "token.truncate a = t" by auto
  from analyzeTokens_member [OF out a(1)] obtain t' where
    t': "analyze_token net t' = Inr (Some a)" by blast
  from analyze_token_Some [OF t'] a(2) t' have "analyze_token net t = Inr (Some a)"
    by simp
  with none show False by simp
qed

text \<open>
  C1. For a token whose fetched metrics have \<open>liquidityUSD = 0\<close>, \<open>volumeToLiquidity\<close>
  is to be the fallback 0 for every \<open>volume24h\<close>. The code misses the case of a nonzero
  volume: with \<open>liquidityUSD\<close> 0 and \<open>volume24h\<close> 5 in the fetched object the quotient
  is \<open>Infinity\<close>, which is truthy, so \<open>|| 0\<close> does not replace it and
  \<open>volumeToLiquidity\<close> is \<open>Infinity\<close>.
\<close>

theorem getTokenMetrics_zero_liquidity_infinite:
  "getTokenMetrics
     (serve (payload_of [(''volume24h'', Number (Fin 5)), (''liquidityUSD'', Number (Fin 0))]
               None))
     USDC
   = Inr (Some \<lparr>price = Fin 0, volume24h = Fin 5, priceChange24h = Fin 0, liquidityUSD = Fin 0,
                 volatility = Fin 0, volumeToLiquidity = PInf\<rparr>)"
  by (simp add: getTokenMetrics_def serve_def payload_of_def calculateVolatility_def truthy_def
      inf_of_def)

text \<open>
  What the code computes for a zero \<open>liquidityUSD\<close> and a finite \<open>volume24h\<close>: the
  fallback 0 only when the volume is 0 too, an infinity otherwise.
\<close>

lemma volumeToLiquidity_zero_liquidity:
  "getTokenMetrics net tok = Inr (Some m) \<Longrightarrow> net (address tok) = Inr response \<Longrightarrow>
   json response = Inr (BodyObj p) \<Longrightarrow> num_field p ''liquidityUSD'' = Number (Fin 0) \<Longrightarrow>
   num_field p ''volume24h'' = Number (Fin v) \<Longrightarrow>
   liquidityUSD m = Fin 0 \<and>
   (v = 0 \<longrightarrow> volumeToLiquidity m = Fin 0) \<and>
   (v \<noteq> 0 \<longrightarrow> volumeToLiquidity m = PInf \<or> volumeToLiquidity m = NInf)"
proof -
  assume m: "getTokenMetrics net tok = Inr (Some m)" and "net (address tok) = Inr response"
    and "json response = Inr (BodyObj p)" and "num_field p ''liquidityUSD'' = Number (Fin 0)"
    and "num_field p ''volume24h'' = Number (Fin v)"
  then have "liquidityUSD m = Fin 0"
    and "volumeToLiquidity m = or_zero (Number (js_div (Fin v) (Fin 0)))"
    by (auto simp: getTokenMetrics_def truthy_def)
  then show ?thesis
    by (cases "0 < v") (simp_all add: truthy_def inf_of_def)
qed






text \<open>The two classifications worked out in the specification.\<close>

lemma classify_relaxed_example:
  "classify WETH \<lparr>price = Fin 1, volume24h = Fin 20000, priceChange24h = Fin (- 5),
                  liquidityUSD = Fin 30000, volatility = lit (15 / 100),
                  volumeToLiquidity = lit (67 / 100)\<rparr>
   = Some \<lparr>symbol = symbol WETH, address = address WETH, decimals = decimals WETH,
           name = name WETH, riskProfile = High,
           metrics = \<lparr>price = Fin 1, volume24h = Fin 20000, priceChange24h = Fin (- 5),
                      liquidityUSD = Fin 30000, volatility = lit (15 / 100),
                      volumeToLiquidity = lit (67 / 100)\<rparr>\<rparr>"
  by code_simp

lemma classify_standard_example:
  "classify WETH \<lparr>price = Fin 1, volume24h = Fin 60000, priceChange24h = Fin (- 1),
                  liquidityUSD = Fin 80000, volatility = lit (2 / 100),
                  volumeToLiquidity = lit (75 / 100)\<rparr>
   = None"
  by code_simp



text \<open>
  C10. For every token whose metrics object parses but whose four numeric fields are
  missing or falsy, the four metrics are coerced to 0, neither policy is met (a price
  change of 0 is neither below -3 nor below 0), and the token is excluded from the output
  of \<open>analyzeTokens\<close>, whatever its historical prices are.
\<close>

theorem analyzeTokens_falsy_fields_excluded:
  assumes "net (address tok) = Inr response" and "json response = Inr (BodyObj p)"
    and "falsy (num_field p ''price'')" and "falsy (num_field p ''volume24h'')"
    and "falsy (num_field p ''priceChange24h'')" and "falsy (num_field p ''liquidityUSD'')"
  shows "(\<exists>m. getTokenMetrics net tok = Inr (Some m) \<and> price m = Fin 0 \<and> volume24h m = Fin 0 \<and>
              priceChange24h m = Fin 0 \<and> liquidityUSD m = Fin 0 \<and>
              \<not> relaxed_policy m \<and> \<not> standard_policy m) \<and>
         analyze_token net tok = Inr None \<and>
         (\<forall>tokens out. analyzeTokens net tokens = Inr out \<longrightarrow>
            tok \<notin> set (map token.truncate out))"
proof -
  obtain m where m: "getTokenMetrics net tok = Inr (Some m)" "price m = Fin 0"
    "volume24h m = Fin 0" "priceChange24h m = Fin 0" "liquidityUSD m = Fin 0"
    using assms by (simp add: getTokenMetrics_def or_zero_falsy)
  have pol: "\<not> relaxed_policy m" "\<not> standard_policy m"
    using m by (simp_all add: relaxed_policy_def standard_policy_def lit_3 lit_0)
  then have none: "analyze_token net tok = Inr None"
    using m(1) by (simp add: analyze_token_def classify_policy passes_policy_def)
  from m pol none analyzeTokens_absent [OF none] show ?thesis by blast
qed

theorem analyzeTokens_falsy_fields_excluded_witness:
  "analyze_token (serve zero_payload) WETH = Inr None \<and>
   analyzeTokens (serve zero_payload) [WETH] = Inr []"
proof -
  have "analyze_token (serve zero_payload) WETH = Inr None"
    using analyzeTokens_falsy_fields_excluded
      [of "serve zero_payload" WETH "\<lparr>ok = True, json = Inr (BodyObj zero_payload)\<rparr>" zero_payload]
    by (simp add: serve_def zero_payload_def payload_of_def)
  then show ?thesis
    by (simp add: analyzeTokens_def non_null_Cons non_null_Nil)
qed

section \<open>Properties of the TradeExecutor\<close>

lemma executeTrade_try_unfold:
  "executeTrade_try now fq w tok amt =
     await (getContract w routerAddress routerABI) (\<lambda>router.
     await (fq (address tok) amt) (\<lambda>quoteResponse.
     await (json quoteResponse) (\<lambda>quote.
     await (read_body ''expectedOutput'' quote) (\<lambda>expectedOutput.
     await (getAddress w) (\<lambda>to.
     await (router (swap_call_of now tok amt expectedOutput to)) (\<lambda>tx.
     await tx (\<lambda>receipt.
     Inr \<lparr>success = True, hash = tx_receipt.hash receipt, amount = amt,
           token = symbol tok\<rparr>)))))))"
  by (simp add: executeTrade_try_def swap_call_of_def minimum_amount_out_def Let_def)






text \<open>
  A rejection with \<open>undefined\<close> is not wrapped either: the \<open>catch\<close> block throws its own
  TypeError while reading \<open>error.message\<close>.
\<close>

lemma executeTrade_nullish_rejection:
  "executeTrade (Fin 0) (quote_of (Number (Fin 1000))) (wallet_with silent_router) USDC (Fin 1)
     = Inl (TypeError ''Cannot read properties of undefined (reading message)'')"
  by (simp add: executeTrade_def executeTrade_catch_def executeTrade_try_unfold quote_of_def
      wallet_with_def silent_router_def)



text \<open>
  C8. Once the router, the quote and the wallet address are there, \<open>executeTrade\<close>
  submits the swap with \<open>minimumAmountOut = floor(expectedOutput * (1 - 0.005))\<close>, the
  slippage being the fixed literal \<open>0.005\<close>; for an expected output of 1000 this is 995 in
  binary64 arithmetic (\<open>1 - 0.005\<close> rounds to the value nearest to 0.995, and its product
  with 1000 rounds to 995 exactly).
\<close>

theorem executeTrade_minimum_amount_out:
  "getContract w routerAddress routerABI = Inr router \<Longrightarrow> fq (address tok) amt = Inr qr \<Longrightarrow>
   json qr = Inr (BodyObj eo) \<Longrightarrow> getAddress w = Inr to \<Longrightarrow>
   executeTrade now fq w tok amt =
     (case router \<lparr>amountOutMin =
                      Math_floor (js_mul (to_number eo) (js_sub (lit 1) (lit (5 / 1000)))),
                    path = [Some (JStr WETH_ADDRESS), address tok],
                    recipient = to,
                    deadline = js_add (Math_floor (js_div now (lit 1000))) (lit 1800),
                    msg_value = amt\<rparr> of
        Inl cause \<Rightarrow> executeTrade_catch cause
      | Inr tx \<Rightarrow>
          (case tx of
             Inl cause \<Rightarrow> executeTrade_catch cause
           | Inr receipt \<Rightarrow>
               Inr \<lparr>success = True, hash = tx_receipt.hash receipt, amount = amt,
                     token = symbol tok\<rparr>)) \<and>
   (eo = Number (Fin 1000) \<longrightarrow>
      Math_floor (js_mul (to_number eo) (js_sub (lit 1) (lit (5 / 1000)))) = Fin 995)"
proof -
  have "Math_floor (js_mul (Fin 1000) (js_sub (lit 1) (lit (5 / 1000)))) = Fin 995"
    by code_simp
  then show "getContract w routerAddress routerABI = Inr router \<Longrightarrow>
      fq (address tok) amt = Inr qr \<Longrightarrow> json qr = Inr (BodyObj eo) \<Longrightarrow>
      getAddress w = Inr to \<Longrightarrow> ?thesis"
    by (auto simp: executeTrade_def executeTrade_try_unfold swap_call_of_def
        minimum_amount_out_def split: sum.splits)
qed

theorem executeTrade_minimum_amount_out_witness:
  "executeTrade (Fin 1700000000000) (quote_of (Number (Fin 1000))) (wallet_with picky_router)
     USDC (Fin 1)
   = Inr \<lparr>success = True, hash = ''0xabc'', amount = Fin 1, token = Some (JStr ''USDC'')\<rparr> \<and>
   Math_floor (js_mul (Fin 1000) (js_sub (lit 1) (lit (5 / 1000)))) = Fin 995"
  using executeTrade_minimum_amount_out
    [of "wallet_with picky_router" picky_router "quote_of (Number (Fin 1000))" USDC "Fin 1"
        "\<lparr>ok = True, json = Inr (BodyObj (Number (Fin 1000)))\<rparr>" "Number (Fin 1000)" "''0xme''"
        "Fin 1700000000000"]
  by (simp add: wallet_with_def quote_of_def picky_router_def USDC_def)

section \<open>Properties of the LifecycleWrapper\<close>

lemma AutoClient_constructor_completes:
  "\<exists>client. constructed (AutoClient_constructor create) = Inr client"
  by (simp add: AutoClient_constructor_def Let_def)

lemma AutoClient_initialize_failure:
  "initialize p = Inl e \<Longrightarrow>
   AutoClient_constructor (Inr p) =
     \<lparr>constructed = Inr \<lparr>interval = None, plugin = Some p\<rparr>,
      plugin_calls = [Initialize],
      unhandled_rejection = Some e\<rparr>"
  by (simp add: AutoClient_constructor_def AutoClient_initialize_def
      AutoClient_initializePlugin_def Let_def)

text \<open>
  C2. When the plugin's \<open>initialize\<close> fails, \<open>start\<close> is never to be invoked and the
  call constructing the \<open>AutoClient\<close> is to raise. The code does the first and misses the
  second: \<open>start\<close> is not invoked, but the constructor completes normally with the
  client and \<open>AutoClientInterface.start\<close> resolves with it; the failure stays in the
  promise of the call \<open>this.initialize()\<close> that the constructor does not await.
\<close>

theorem AutoClient_constructor_drops_initialize_failure:
  "AutoClient_constructor (Inr failing_plugin) =
     \<lparr>constructed = Inr \<lparr>interval = None, plugin = Some failing_plugin\<rparr>,
      plugin_calls = [Initialize],
      unhandled_rejection = Some (Error ''init failed'')\<rparr> \<and>
   constructed (AutoClientInterface_start (Inr failing_plugin)) =
     Inr \<lparr>interval = None, plugin = Some failing_plugin\<rparr>"
  by (simp add: AutoClientInterface_start_def AutoClient_initialize_failure failing_plugin_def
      Let_def)

text \<open>
  C9, as stated, fails: a plugin that was created, whose \<open>initialize\<close> failed (so that it
  was never started) and whose \<open>cleanup\<close> hook fails makes \<open>stop\<close> raise the error of
  the hook.
\<close>

theorem AutoClient_stop_cleanup_failure_counterexample:
  "AutoClient_constructor (Inr stuck_plugin) =
     \<lparr>constructed = Inr \<lparr>interval = None, plugin = Some stuck_plugin\<rparr>,
      plugin_calls = [Initialize],
      unhandled_rejection = Some (Error ''init failed'')\<rparr> \<and>
   result (AutoClient_stop \<lparr>interval = None, plugin = Some stuck_plugin\<rparr> [Initialize]) =
     Inl (Error ''cleanup failed'')"
  by (simp add: AutoClient_initialize_failure AutoClient_stop_def stuck_plugin_def)

text \<open>
  C9 (amended). \<open>stop\<close> called before any successful start does not raise when the
  plugin was never created (the plugin field is undefined, whether or not an interval was
  scheduled) or when the created plugin has no \<open>cleanup\<close> hook; when it has one, \<open>stop\<close>
  invokes it and raises exactly when the hook fails. The interval slot is empty afterwards.
\<close>

theorem AutoClient_stop_result:
  "(plugin client = None \<longrightarrow>
      result (AutoClient_stop client calls) = Inr () \<and>
      invoked (AutoClient_stop client calls) = calls) \<and>
   (plugin client = Some p \<and> cleanup p = None \<longrightarrow>
      result (AutoClient_stop client calls) = Inr () \<and>
      invoked (AutoClient_stop client calls) = calls) \<and>
   (plugin client = Some p \<and> cleanup p = Some r \<longrightarrow>
      result (AutoClient_stop client calls) = r \<and>
      invoked (AutoClient_stop client calls) = calls @ [Cleanup]) \<and>
   interval (this (AutoClient_stop client calls)) = None"
  by (auto simp: AutoClient_stop_def split: option.splits)

theorem AutoClient_stop_result_witness:
  "result (AutoClient_stop \<lparr>interval = None, plugin = None\<rparr> []) = Inr () \<and>
   result (AutoClient_stop \<lparr>interval = Some 7, plugin = None\<rparr> []) = Inr () \<and>
   result (AutoClient_stop \<lparr>interval = None, plugin = Some failing_plugin\<rparr> [Initialize]) = Inr () \<and>
   result (AutoClient_stop \<lparr>interval = None, plugin = Some stuck_plugin\<rparr> [Initialize]) =
     Inl (Error ''cleanup failed'') \<and>
   invoked (AutoClient_stop \<lparr>interval = None, plugin = Some stuck_plugin\<rparr> [Initialize]) =
     [Initialize, Cleanup]"
  using AutoClient_stop_result [of "\<lparr>interval = None, plugin = None\<rparr>" "[]"]
    AutoClient_stop_result [of "\<lparr>interval = Some 7, plugin = None\<rparr>" "[]"]
    AutoClient_stop_result
      [of "\<lparr>interval = None, plugin = Some failing_plugin\<rparr>" "[Initialize]" failing_plugin]
    AutoClient_stop_result
      [of "\<lparr>interval = None, plugin = Some stuck_plugin\<rparr>" "[Initialize]" stuck_plugin
          "Inl (Error ''cleanup failed'')"]
  by (simp add: failing_plugin_def stuck_plugin_def)

end
